theory Spec2Isabelle
  imports Complex_Main "HOL-Library.Char_ord" "HOL-Library.List_Lexorder"
begin

section \<open>Python values and the operations the scripts apply to them\<close>

text \<open>
  Both scripts work on what \<^verbatim>\<open>json.loads\<close> returns: \<^verbatim>\<open>None\<close>, booleans, numbers,
  strings, lists and dictionaries with string keys. A dictionary is an association list
  in insertion order; the parser leaves every key once. Numbers are exact rationals:
  the rounding, the infinities and the NaN of Python's floats are outside this model.
\<close>

datatype json =
    JNull
  | JBool bool
  | JNum rat
  | JStr string
  | JArr "json list"
  | JObj "(string \<times> json) list"

text \<open>The exceptions the modelled code can raise.\<close>

datatype py_error =
    TypeError
  | KeyError
  | IndexError
  | AttributeError
  | ZeroDivisionError
  | ValueError
  | IntegrityError
  | InterfaceError

text \<open>Sequencing of fallible steps: the first exception ends the computation.\<close>

fun pbind :: "py_error + 'a \<Rightarrow> ('a \<Rightarrow> py_error + 'b) \<Rightarrow> py_error + 'b" where
  "pbind (Inl e) f = Inl e"
| "pbind (Inr x) f = f x"

text \<open>A comprehension \<^verbatim>\<open>[f(c) for c in xs]\<close>: left to right, stopping at the first exception.\<close>

fun pmap :: "('a \<Rightarrow> py_error + 'b) \<Rightarrow> 'a list \<Rightarrow> py_error + 'b list" where
  "pmap f [] = Inr []"
| "pmap f (x # xs) = pbind (f x) (\<lambda>y. pbind (pmap f xs) (\<lambda>ys. Inr (y # ys)))"

text \<open>Truth value testing, \<^verbatim>\<open>not v\<close> and \<^verbatim>\<open>if v:\<close>.\<close>

fun truthy :: "json \<Rightarrow> bool" where
  "truthy JNull = False"
| "truthy (JBool b) = b"
| "truthy (JNum r) = (r \<noteq> 0)"
| "truthy (JStr s) = (s \<noteq> [])"
| "truthy (JArr xs) = (xs \<noteq> [])"
| "truthy (JObj kvs) = (kvs \<noteq> [])"

text \<open>\<^verbatim>\<open>k in s\<close> for two strings is the substring test.\<close>

fun is_substring :: "string \<Rightarrow> string \<Rightarrow> bool" where
  "is_substring k [] = (k = [])"
| "is_substring k (c # cs) = (take (length k) (c # cs) = k \<or> is_substring k cs)"

text \<open>
  \<^verbatim>\<open>k in v\<close> for a string \<open>k\<close>: key membership in a dictionary, element membership in a
  list (only an equal string is equal to a string), the substring test in a string, and
  a TypeError in anything else.
\<close>

fun py_contains :: "string \<Rightarrow> json \<Rightarrow> py_error + bool" where
  "py_contains k (JObj kvs) = Inr (map_of kvs k \<noteq> None)"
| "py_contains k (JArr xs) = Inr (List.member xs (JStr k))"
| "py_contains k (JStr s) = Inr (is_substring k s)"
| "py_contains k JNull = Inl TypeError"
| "py_contains k (JBool b) = Inl TypeError"
| "py_contains k (JNum r) = Inl TypeError"

text \<open>\<^verbatim>\<open>v[k]\<close> with a string key: only a dictionary takes one.\<close>

fun py_getitem_key :: "json \<Rightarrow> string \<Rightarrow> py_error + json" where
  "py_getitem_key (JObj kvs) k = (case map_of kvs k of None \<Rightarrow> Inl KeyError | Some v \<Rightarrow> Inr v)"
| "py_getitem_key JNull k = Inl TypeError"
| "py_getitem_key (JBool b) k = Inl TypeError"
| "py_getitem_key (JNum r) k = Inl TypeError"
| "py_getitem_key (JStr s) k = Inl TypeError"
| "py_getitem_key (JArr xs) k = Inl TypeError"

text \<open>
  \<^verbatim>\<open>v[i]\<close> with a non-negative integer: lists and strings are indexed (IndexError out of
  range), a dictionary has no integer key (its keys are strings), the rest is not
  subscriptable.
\<close>

fun py_getitem_idx :: "json \<Rightarrow> nat \<Rightarrow> py_error + json" where
  "py_getitem_idx (JArr xs) i = (if i < length xs then Inr (xs ! i) else Inl IndexError)"
| "py_getitem_idx (JStr s) i = (if i < length s then Inr (JStr [s ! i]) else Inl IndexError)"
| "py_getitem_idx (JObj kvs) i = Inl KeyError"
| "py_getitem_idx JNull i = Inl TypeError"
| "py_getitem_idx (JBool b) i = Inl TypeError"
| "py_getitem_idx (JNum r) i = Inl TypeError"

fun py_len :: "json \<Rightarrow> py_error + nat" where
  "py_len (JArr xs) = Inr (length xs)"
| "py_len (JStr s) = Inr (length s)"
| "py_len (JObj kvs) = Inr (length kvs)"
| "py_len JNull = Inl TypeError"
| "py_len (JBool b) = Inl TypeError"
| "py_len (JNum r) = Inl TypeError"

text \<open>Iteration: the elements of a list, the characters of a string, the keys of a dictionary.\<close>

fun py_iter :: "json \<Rightarrow> py_error + json list" where
  "py_iter (JArr xs) = Inr xs"
| "py_iter (JStr s) = Inr (map (\<lambda>c. JStr [c]) s)"
| "py_iter (JObj kvs) = Inr (map (\<lambda>kv. JStr (fst kv)) kvs)"
| "py_iter JNull = Inl TypeError"
| "py_iter (JBool b) = Inl TypeError"
| "py_iter (JNum r) = Inl TypeError"

text \<open>\<^verbatim>\<open>v.get(k, d)\<close>: only a dictionary has the method.\<close>

fun py_get :: "json \<Rightarrow> string \<Rightarrow> json \<Rightarrow> py_error + json" where
  "py_get (JObj kvs) k d = Inr (case map_of kvs k of None \<Rightarrow> d | Some v \<Rightarrow> v)"
| "py_get JNull k d = Inl AttributeError"
| "py_get (JBool b) k d = Inl AttributeError"
| "py_get (JNum r) k d = Inl AttributeError"
| "py_get (JStr s) k d = Inl AttributeError"
| "py_get (JArr xs) k d = Inl AttributeError"

section \<open>The geometry translator (download-ide-data.py)\<close>

definition esri_to_geojson_geometry :: "json \<Rightarrow> json \<Rightarrow> py_error + json" where
  "esri_to_geojson_geometry esri_geom geom_type =
    (if \<not> truthy esri_geom then Inr JNull
     else if geom_type = JStr ''esriGeometryPoint'' then
       pbind (py_contains ''x'' esri_geom) (\<lambda>has_x.
         if \<not> has_x then Inr JNull
         else pbind (py_contains ''y'' esri_geom) (\<lambda>has_y.
           if \<not> has_y then Inr JNull
           else pbind (py_getitem_key esri_geom ''x'') (\<lambda>x.
                pbind (py_getitem_key esri_geom ''y'') (\<lambda>y.
                  Inr (JObj [(''type'', JStr ''Point''),
                             (''coordinates'', JArr [x, y])])))))
     else if geom_type = JStr ''esriGeometryPolyline'' then
       pbind (py_contains ''paths'' esri_geom) (\<lambda>has_paths.
         if \<not> has_paths then Inr JNull
         else pbind (py_getitem_key esri_geom ''paths'') (\<lambda>paths.
              pbind (py_len paths) (\<lambda>n.
                if n = 1 then
                  pbind (py_getitem_idx paths 0) (\<lambda>path.
                    Inr (JObj [(''type'', JStr ''LineString''),
                               (''coordinates'', path)]))
                else
                  Inr (JObj [(''type'', JStr ''MultiLineString''),
                             (''coordinates'', paths)]))))
     else if geom_type = JStr ''esriGeometryPolygon'' then
       pbind (py_contains ''rings'' esri_geom) (\<lambda>has_rings.
         if \<not> has_rings then Inr JNull
         else pbind (py_getitem_key esri_geom ''rings'') (\<lambda>rings.
              pbind (py_len rings) (\<lambda>n.
                if n = 1 then
                  Inr (JObj [(''type'', JStr ''Polygon''),
                             (''coordinates'', rings)])
                else
                  pbind (py_iter rings) (\<lambda>rs.
                    Inr (JObj [(''type'', JStr ''MultiPolygon''),
                               (''coordinates'', JArr (map (\<lambda>ring. JArr [ring]) rs))])))))
     else if geom_type = JStr ''esriGeometryMultipoint'' then
       pbind (py_contains ''points'' esri_geom) (\<lambda>has_points.
         if \<not> has_points then Inr JNull
         else pbind (py_getitem_key esri_geom ''points'') (\<lambda>points.
                Inr (JObj [(''type'', JStr ''MultiPoint''),
                           (''coordinates'', points)])))
     else Inr JNull)"

section \<open>The spatial summarizer (upload-to-turso.py)\<close>

text \<open>
  \<^verbatim>\<open>sum(xs)\<close> starts from the integer 0 and adds the elements from the left. A number
  adds, and so does a boolean (\<^verbatim>\<open>bool\<close> is a subclass of \<^verbatim>\<open>int\<close>); anything else is a
  TypeError.
\<close>

fun py_num :: "json \<Rightarrow> py_error + rat" where
  "py_num (JNum r) = Inr r"
| "py_num (JBool b) = Inr (if b then 1 else 0)"
| "py_num JNull = Inl TypeError"
| "py_num (JStr s) = Inl TypeError"
| "py_num (JArr xs) = Inl TypeError"
| "py_num (JObj kvs) = Inl TypeError"

fun py_sum_from :: "rat \<Rightarrow> json list \<Rightarrow> py_error + rat" where
  "py_sum_from acc [] = Inr acc"
| "py_sum_from acc (x # xs) = pbind (py_num x) (\<lambda>r. py_sum_from (acc + r) xs)"

definition py_sum :: "json list \<Rightarrow> py_error + rat" where
  "py_sum xs = py_sum_from 0 xs"

text \<open>\<^verbatim>\<open>sum(xs) / len(xs)\<close>: the sum first, then the division.\<close>

definition py_mean :: "json list \<Rightarrow> py_error + json" where
  "py_mean xs =
     pbind (py_sum xs) (\<lambda>s.
       if length xs = 0 then Inl ZeroDivisionError
       else Inr (JNum (s / of_nat (length xs))))"

text \<open>
  The four lines every averaging branch of \<^verbatim>\<open>get_centroid\<close> repeats:
  \<^verbatim>\<open>lons = [c[0] for c in cs]; lats = [c[1] for c in cs];
  return (sum(lons) / len(lons), sum(lats) / len(lats))\<close>.
\<close>

definition vertex_mean :: "json list \<Rightarrow> py_error + (json \<times> json)" where
  "vertex_mean cs =
     pbind (pmap (\<lambda>c. py_getitem_idx c 0) cs) (\<lambda>lons.
     pbind (pmap (\<lambda>c. py_getitem_idx c 1) cs) (\<lambda>lats.
     pbind (py_mean lons) (\<lambda>lon.
     pbind (py_mean lats) (\<lambda>lat. Inr (lon, lat)))))"

text \<open>
  The body of the \<^verbatim>\<open>try\<close> block. \<open>Some\<close> is a \<^verbatim>\<open>return\<close> inside the block, \<open>None\<close>
  is falling out of the \<^verbatim>\<open>if\<close>/\<^verbatim>\<open>elif\<close> chain to the last line of the function.
\<close>

definition centroid_try :: "json \<Rightarrow> json \<Rightarrow> py_error + (json \<times> json) option" where
  "centroid_try geom_type coords =
    (if geom_type = JStr ''Point'' then
       pbind (py_getitem_idx coords 0) (\<lambda>c0.
       pbind (py_getitem_idx coords 1) (\<lambda>c1. Inr (Some (c0, c1))))
     else if geom_type = JStr ''LineString'' then
       pbind (py_iter coords) (\<lambda>cs.
       pbind (vertex_mean cs) (\<lambda>r. Inr (Some r)))
     else if geom_type = JStr ''Polygon'' then
       pbind (if truthy coords then py_getitem_idx coords 0 else Inr (JArr [])) (\<lambda>ring.
         if truthy ring then
           pbind (py_iter ring) (\<lambda>cs.
           pbind (vertex_mean cs) (\<lambda>r. Inr (Some r)))
         else Inr None)
     else if geom_type = JStr ''MultiLineString'' then
       pbind (py_iter coords) (\<lambda>lines.
       pbind (pmap py_iter lines) (\<lambda>css.
         let all_coords = concat css in
         if all_coords \<noteq> [] then pbind (vertex_mean all_coords) (\<lambda>r. Inr (Some r))
         else Inr None))
     else if geom_type = JStr ''MultiPolygon'' then
       pbind (py_iter coords) (\<lambda>polys.
       pbind (pmap (\<lambda>poly.
                pbind (py_iter poly) (\<lambda>rings.
                pbind (pmap py_iter rings) (\<lambda>css. Inr (concat css)))) polys) (\<lambda>per_poly.
         let all_coords = concat per_poly in
         if all_coords \<noteq> [] then pbind (vertex_mean all_coords) (\<lambda>r. Inr (Some r))
         else Inr None))
     else if geom_type = JStr ''MultiPoint'' then
       pbind (py_iter coords) (\<lambda>cs.
       pbind (vertex_mean cs) (\<lambda>r. Inr (Some r)))
     else Inr None)"

text \<open>
  \<^verbatim>\<open>get_centroid\<close>. The two \<^verbatim>\<open>.get\<close> calls stand before the \<^verbatim>\<open>try\<close>; the handler
  catches IndexError and TypeError and nothing else.
\<close>

definition get_centroid :: "json \<Rightarrow> py_error + (json \<times> json)" where
  "get_centroid geometry =
    (if \<not> truthy geometry then Inr (JNull, JNull)
     else
       pbind (py_get geometry ''type'' (JStr [])) (\<lambda>geom_type.
       pbind (py_get geometry ''coordinates'' (JArr [])) (\<lambda>coords.
         if \<not> truthy coords then Inr (JNull, JNull)
         else
           (case centroid_try geom_type coords of
              Inl e \<Rightarrow> if e = IndexError \<or> e = TypeError then Inr (JNull, JNull) else Inl e
            | Inr (Some r) \<Rightarrow> Inr r
            | Inr None \<Rightarrow> Inr (JNull, JNull)))))"

text \<open>
  Python's \<^verbatim>\<open>==\<close> on parsed values: numbers and booleans by value, strings and lists
  elementwise, dictionaries as sets of items.
\<close>

fun py_eq :: "json \<Rightarrow> json \<Rightarrow> bool"
  and py_eq_list :: "json list \<Rightarrow> json list \<Rightarrow> bool"
  and py_eq_items :: "(string \<times> json) list \<Rightarrow> (string \<times> json) list \<Rightarrow> bool" where
  "py_eq JNull b = (b = JNull)"
| "py_eq (JBool x) b =
     (case b of JBool y \<Rightarrow> x = y | JNum q \<Rightarrow> (if x then 1 else 0) = q | _ \<Rightarrow> False)"
| "py_eq (JNum r) b =
     (case b of JNum q \<Rightarrow> r = q | JBool y \<Rightarrow> r = (if y then 1 else 0) | _ \<Rightarrow> False)"
| "py_eq (JStr s) b = (b = JStr s)"
| "py_eq (JArr xs) b = (case b of JArr ys \<Rightarrow> py_eq_list xs ys | _ \<Rightarrow> False)"
| "py_eq (JObj kvs) b =
     (case b of JObj kws \<Rightarrow> length kvs = length kws \<and> py_eq_items kvs kws | _ \<Rightarrow> False)"
| "py_eq_list [] ys = (ys = [])"
| "py_eq_list (x # xs) ys =
     (case ys of [] \<Rightarrow> False | y # ys' \<Rightarrow> py_eq x y \<and> py_eq_list xs ys')"
| "py_eq_items [] kws = True"
| "py_eq_items (kv # kvs) kws =
     (case map_of kws (fst kv) of
        None \<Rightarrow> False
      | Some w \<Rightarrow> py_eq (snd kv) w \<and> py_eq_items kvs kws)"

text \<open>
  Python's \<^verbatim>\<open><\<close>: numbers (and booleans) by value, strings by code point, lists by the
  first pair of unequal elements and then by length; \<^verbatim>\<open>None\<close>, dictionaries and mixed
  operands are a TypeError.
\<close>

fun py_lt :: "json \<Rightarrow> json \<Rightarrow> py_error + bool"
  and py_lt_list :: "json list \<Rightarrow> json list \<Rightarrow> py_error + bool" where
  "py_lt (JNum r) b =
     (case b of JNum q \<Rightarrow> Inr (r < q) | JBool y \<Rightarrow> Inr (r < (if y then 1 else 0))
      | _ \<Rightarrow> Inl TypeError)"
| "py_lt (JBool x) b =
     (case b of JNum q \<Rightarrow> Inr ((if x then 1 else 0) < q) | JBool y \<Rightarrow> Inr (\<not> x \<and> y)
      | _ \<Rightarrow> Inl TypeError)"
| "py_lt (JStr s) b = (case b of JStr t \<Rightarrow> Inr (s < t) | _ \<Rightarrow> Inl TypeError)"
| "py_lt (JArr xs) b = (case b of JArr ys \<Rightarrow> py_lt_list xs ys | _ \<Rightarrow> Inl TypeError)"
| "py_lt JNull b = Inl TypeError"
| "py_lt (JObj kvs) b = Inl TypeError"
| "py_lt_list [] ys = Inr (ys \<noteq> [])"
| "py_lt_list (x # xs) ys =
     (case ys of
        [] \<Rightarrow> Inr False
      | y # ys' \<Rightarrow> if py_eq x y then py_lt_list xs ys' else py_lt x y)"

text \<open>
  \<^verbatim>\<open>min\<close> and \<^verbatim>\<open>max\<close> keep the first element as the best one and replace it by a later
  item when \<^verbatim>\<open>item < best\<close> (for \<^verbatim>\<open>min\<close>) or \<^verbatim>\<open>item > best\<close> (for \<^verbatim>\<open>max\<close>); on the values
  modelled here \<^verbatim>\<open>a > b\<close> is \<^verbatim>\<open>b < a\<close>. An empty argument is a ValueError.
\<close>

fun py_min_from :: "json \<Rightarrow> json list \<Rightarrow> py_error + json" where
  "py_min_from best [] = Inr best"
| "py_min_from best (x # xs) =
     pbind (py_lt x best) (\<lambda>lt. py_min_from (if lt then x else best) xs)"

fun py_max_from :: "json \<Rightarrow> json list \<Rightarrow> py_error + json" where
  "py_max_from best [] = Inr best"
| "py_max_from best (x # xs) =
     pbind (py_lt best x) (\<lambda>gt. py_max_from (if gt then x else best) xs)"

fun py_min :: "json list \<Rightarrow> py_error + json" where
  "py_min [] = Inl ValueError"
| "py_min (x # xs) = py_min_from x xs"

fun py_max :: "json list \<Rightarrow> py_error + json" where
  "py_max [] = Inl ValueError"
| "py_max (x # xs) = py_max_from x xs"

text \<open>The loop of \<^verbatim>\<open>get_bbox\<close>, with the two lists it appends to.\<close>

fun bbox_loop :: "json list \<Rightarrow> json list \<Rightarrow> json list \<Rightarrow> py_error + (json list \<times> json list)" where
  "bbox_loop [] lons lats = Inr (lons, lats)"
| "bbox_loop (f # fs) lons lats =
     pbind (py_get f ''geometry'' JNull) (\<lambda>geometry.
     pbind (get_centroid geometry) (\<lambda>centroid.
       if fst centroid \<noteq> JNull
       then bbox_loop fs (lons @ [fst centroid]) (lats @ [snd centroid])
       else bbox_loop fs lons lats))"

definition get_bbox :: "json \<Rightarrow> py_error + (json \<times> json \<times> json \<times> json)" where
  "get_bbox features =
     pbind (py_iter features) (\<lambda>fs.
     pbind (bbox_loop fs [] []) (\<lambda>acc.
       let lons = fst acc; lats = snd acc in
       if lons \<noteq> [] \<and> lats \<noteq> [] then
         pbind (py_min lons) (\<lambda>west.
         pbind (py_min lats) (\<lambda>south.
         pbind (py_max lons) (\<lambda>east.
         pbind (py_max lats) (\<lambda>north. Inr (west, south, east, north)))))
       else Inr (JNull, JNull, JNull, JNull)))"

section \<open>The paginated fetcher (download-ide-data.py)\<close>

text \<open>
  One request of \<^verbatim>\<open>query_layer\<close> either raises inside \<^verbatim>\<open>urlopen\<close>, \<^verbatim>\<open>read\<close>, \<^verbatim>\<open>decode\<close> or
  \<^verbatim>\<open>json.loads\<close> (\<open>Failure\<close>: \<^verbatim>\<open>data\<close> keeps its old binding) or yields the decoded body.
  The endpoint is a function from the \<^verbatim>\<open>resultOffset\<close> of the request to what comes
  back; the offsets of one run are all different.
\<close>

datatype response = Failure | Body json

definition page_size :: nat where
  "page_size = 1000"

text \<open>
  The local variables of the loop, and the number of requests issued so far. \<open>s_data\<close>
  is \<open>None\<close> while \<^verbatim>\<open>data\<close> is unbound.
\<close>

record fetch_state =
  s_all_features :: "json list"
  s_offset :: nat
  s_data :: "json option"
  s_requests :: nat

text \<open>
  The statements of the \<^verbatim>\<open>try\<close> block after \<^verbatim>\<open>data\<close> is bound: the new accumulator, and
  whether the loop goes on. Every exception is caught by \<^verbatim>\<open>except Exception\<close> and breaks
  the loop; so does a body that has an \<^verbatim>\<open>error\<close> entry, whether or not printing its
  message raises.
\<close>

definition page_body :: "int \<Rightarrow> json list \<Rightarrow> json \<Rightarrow> json list \<times> bool" where
  "page_body max_records all_features d =
    (case py_contains ''error'' d of
       Inl e \<Rightarrow> (all_features, False)
     | Inr has_error \<Rightarrow>
         if has_error then (all_features, False)
         else
           (case py_get d ''features'' (JArr []) of
              Inl e \<Rightarrow> (all_features, False)
            | Inr features \<Rightarrow>
                if \<not> truthy features then (all_features, False)
                else
                  (case py_iter features of
                     Inl e \<Rightarrow> (all_features, False)
                   | Inr fl \<Rightarrow>
                       (case py_len features of
                          Inl e \<Rightarrow> (all_features @ fl, False)
                        | Inr n \<Rightarrow>
                            (all_features @ fl,
                             \<not> (n < page_size \<or>
                                max_records \<le> int (length (all_features @ fl))))))))"

function query_loop :: "(nat \<Rightarrow> response) \<Rightarrow> int \<Rightarrow> fetch_state \<Rightarrow> fetch_state" where
  "query_loop server max_records s =
    (case server (s_offset s) of
       Failure \<Rightarrow> s\<lparr>s_requests := Suc (s_requests s)\<rparr>
     | Body d \<Rightarrow>
         (let r = page_body max_records (s_all_features s) d;
              s' = s\<lparr>s_all_features := fst r, s_data := Some d,
                      s_requests := Suc (s_requests s)\<rparr>
          in if snd r then query_loop server max_records (s'\<lparr>s_offset := s_offset s + page_size\<rparr>)
             else s'))"
  by pat_completeness auto
termination
proof (relation "measure (\<lambda>(server, max_records, s). nat (max_records - int (length (s_all_features s))))")
  show "wf (measure (\<lambda>(server, max_records, s). nat (max_records - int (length (s_all_features s)))))"
    by simp
next
  fix server :: "nat \<Rightarrow> response" and max_records :: int and s :: fetch_state
    and d :: json and r :: "json list \<times> bool" and s' :: fetch_state
  assume r: "r = page_body max_records (s_all_features s) d"
    and s': "s' = s\<lparr>s_all_features := fst r, s_data := Some d, s_requests := Suc (s_requests s)\<rparr>"
    and go: "snd r"
  have iter_nonempty: "fl \<noteq> []" if "truthy v" "py_iter v = Inr fl" for v fl
    using that by (cases v) auto
  from r go have "length (s_all_features s) < length (fst r) \<and> int (length (fst r)) < max_records"
    by (auto simp: page_body_def split: sum.splits if_splits dest: iter_nonempty)
  with s' show "((server, max_records, s'\<lparr>s_offset := s_offset s + page_size\<rparr>), (server, max_records, s))
      \<in> measure (\<lambda>(server, max_records, s). nat (max_records - int (length (s_all_features s))))"
    by simp
qed

text \<open>The loop of \<^verbatim>\<open>query_layer\<close> from its initial state.\<close>

definition query_layer_run :: "(nat \<Rightarrow> response) \<Rightarrow> int \<Rightarrow> fetch_state" where
  "query_layer_run server max_records =
     query_loop server max_records
       \<lparr>s_all_features = [], s_offset = 0, s_data = None, s_requests = 0\<rparr>"

text \<open>
  \<^verbatim>\<open>query_layer\<close>: the dictionary built after the loop. The two reads of \<^verbatim>\<open>data\<close> stand
  outside the \<^verbatim>\<open>try\<close>; \<^verbatim>\<open>"data" in dir()\<close> tells whether \<^verbatim>\<open>data\<close> was ever bound.
\<close>

definition query_layer :: "(nat \<Rightarrow> response) \<Rightarrow> int \<Rightarrow> py_error + json" where
  "query_layer server max_records =
    (let s = query_layer_run server max_records;
         all_features = s_all_features s
     in pbind (case s_data s of
                 None \<Rightarrow> Inr (JStr [])
               | Some d \<Rightarrow> py_get d ''geometryType'' (JStr [])) (\<lambda>tag.
        case s_data s of
          None \<Rightarrow> Inr (JObj [(''features'', JArr all_features), (''geometryType'', tag)])
        | Some d \<Rightarrow>
            if all_features \<noteq> [] then
              pbind (py_contains ''geometryType'' d) (\<lambda>has_tag.
                if has_tag then
                  pbind (py_getitem_key d ''geometryType'') (\<lambda>tag'.
                    Inr (JObj [(''features'', JArr all_features), (''geometryType'', tag')]))
                else Inr (JObj [(''features'', JArr all_features), (''geometryType'', tag)]))
            else Inr (JObj [(''features'', JArr all_features), (''geometryType'', tag)])))"

section \<open>The indexed loader (upload-to-turso.py)\<close>

text \<open>
  The two tables of the schema. A column bound to a Python value holds that value
  (\<open>JNull\<close> is SQL NULL); a TEXT column written with \<^verbatim>\<open>json.dumps\<close> holds the value that was
  serialized. The \<^verbatim>\<open>id\<close> of a feature row is its position in \<open>db_features\<close>; the column
  \<^verbatim>\<open>created_at\<close>, the indexes and the full-text table are not modelled.
\<close>

record layer_row =
  lr_id :: string
  lr_name :: string
  lr_source_file :: string
  lr_geometry_type :: json
  lr_feature_count :: nat
  lr_bbox_west :: json
  lr_bbox_south :: json
  lr_bbox_east :: json
  lr_bbox_north :: json

record feature_row =
  fr_layer_id :: string
  fr_geometry_type :: json
  fr_geometry :: "json option"
  fr_centroid_lon :: json
  fr_centroid_lat :: json
  fr_properties :: json

record db =
  db_layers :: "layer_row list"
  db_features :: "feature_row list"
  db_commits :: nat

text \<open>
  \<^verbatim>\<open>cursor.execute\<close> binds \<^verbatim>\<open>None\<close>, numbers, booleans and strings; a list or a dictionary
  as a parameter is an error of the driver.
\<close>

fun bindable :: "json \<Rightarrow> bool" where
  "bindable JNull = True"
| "bindable (JBool b) = True"
| "bindable (JNum r) = True"
| "bindable (JStr s) = True"
| "bindable (JArr xs) = False"
| "bindable (JObj kvs) = False"

text \<open>\<^verbatim>\<open>INSERT INTO layers\<close>: \<^verbatim>\<open>id\<close> is the primary key.\<close>

definition insert_layer :: "db \<Rightarrow> layer_row \<Rightarrow> py_error + db" where
  "insert_layer d row =
    (if \<not> (bindable (lr_geometry_type row) \<and> bindable (lr_bbox_west row) \<and>
            bindable (lr_bbox_south row) \<and> bindable (lr_bbox_east row) \<and>
            bindable (lr_bbox_north row))
     then Inl InterfaceError
     else if List.member (map lr_id (db_layers d)) (lr_id row) then Inl IntegrityError
     else Inr (d\<lparr>db_layers := db_layers d @ [row]\<rparr>))"

text \<open>\<^verbatim>\<open>INSERT INTO features\<close>: the foreign key is declared and not enforced.\<close>

definition insert_feature :: "db \<Rightarrow> feature_row \<Rightarrow> py_error + db" where
  "insert_feature d row =
    (if \<not> (bindable (fr_geometry_type row) \<and> bindable (fr_centroid_lon row) \<and>
            bindable (fr_centroid_lat row))
     then Inl InterfaceError
     else Inr (d\<lparr>db_features := db_features d @ [row]\<rparr>))"

text \<open>
  \<^verbatim>\<open>s.replace(old, new)\<close>, every occurrence from the left; \<^verbatim>\<open>s.endswith(suffix)\<close>;
  \<^verbatim>\<open>s.title()\<close> on ASCII letters (a letter after a letter is lowered, any other letter is
  raised, other characters stay).
\<close>

function str_replace :: "string \<Rightarrow> string \<Rightarrow> string \<Rightarrow> string" where
  "str_replace old new [] = (if old = [] then new else [])"
| "str_replace old new (c # cs) =
     (if old = [] then new @ c # str_replace old new cs
      else if take (length old) (c # cs) = old
      then new @ str_replace old new (drop (length old) (c # cs))
      else c # str_replace old new cs)"
  by pat_completeness auto
termination
  by (relation "measure (\<lambda>(old, new, s). length s)") auto

definition str_endswith :: "string \<Rightarrow> string \<Rightarrow> bool" where
  "str_endswith s suffix =
     (length suffix \<le> length s \<and> drop (length s - length suffix) s = suffix)"

definition is_upper :: "char \<Rightarrow> bool" where
  "is_upper c = (CHR ''A'' \<le> c \<and> c \<le> CHR ''Z'')"

definition is_lower :: "char \<Rightarrow> bool" where
  "is_lower c = (CHR ''a'' \<le> c \<and> c \<le> CHR ''z'')"

definition to_upper :: "char \<Rightarrow> char" where
  "to_upper c = (if is_lower c then char_of (of_char c - (32 :: nat)) else c)"

definition to_lower :: "char \<Rightarrow> char" where
  "to_lower c = (if is_upper c then char_of (of_char c + (32 :: nat)) else c)"

fun title_from :: "bool \<Rightarrow> string \<Rightarrow> string" where
  "title_from previous_is_cased [] = []"
| "title_from previous_is_cased (c # cs) =
     (if is_upper c \<or> is_lower c
      then (if previous_is_cased then to_lower c else to_upper c) # title_from True cs
      else c # title_from False cs)"

definition str_title :: "string \<Rightarrow> string" where
  "str_title s = title_from False s"

text \<open>
  A slice \<^verbatim>\<open>v[i:j]\<close> with \<open>i \<le> j\<close>. Only a list reaches the slice in the loader: the
  elements of a string or of a dictionary are strings, and the first \<^verbatim>\<open>feat.get\<close> on one
  raises before.
\<close>

fun py_slice :: "json \<Rightarrow> nat \<Rightarrow> nat \<Rightarrow> py_error + json" where
  "py_slice (JArr xs) i j = Inr (JArr (take (j - i) (drop i xs)))"
| "py_slice (JStr s) i j = Inr (JStr (take (j - i) (drop i s)))"
| "py_slice (JObj kvs) i j = Inl TypeError"
| "py_slice JNull i j = Inl TypeError"
| "py_slice (JBool b) i j = Inl TypeError"
| "py_slice (JNum r) i j = Inl TypeError"

text \<open>A file of the data directory: its name, its size in bytes, and what \<^verbatim>\<open>json.load\<close>
  returns for it (\<open>None\<close> when opening or parsing raises).\<close>

record artifact =
  a_name :: string
  a_size :: nat
  a_content :: "json option"

text \<open>What the loop body of \<^verbatim>\<open>load_geojson_files\<close> did with one file.\<close>

datatype outcome =
    Skipped
  | ParseError
  | NoFeatures
  | Failed py_error
  | Loaded nat

definition batch_size :: nat where
  "batch_size = 500"

text \<open>The geometry type of the layer: from the first feature with a truthy geometry.\<close>

fun first_geom_type :: "json list \<Rightarrow> py_error + json" where
  "first_geom_type [] = Inr JNull"
| "first_geom_type (feat # rest) =
     pbind (py_get feat ''geometry'' JNull) (\<lambda>g.
       if truthy g then
         pbind (py_getitem_key feat ''geometry'') (\<lambda>g'. py_get g' ''type'' JNull)
       else first_geom_type rest)"

text \<open>The parameters of the \<^verbatim>\<open>layers\<close> row, in the order the source evaluates them.\<close>

definition layer_row_of :: "string \<Rightarrow> json \<Rightarrow> py_error + layer_row" where
  "layer_row_of filename features =
     (let layer_id = str_replace ''.geojson'' [] filename in
      pbind (py_iter features) (\<lambda>fs.
      pbind (first_geom_type fs) (\<lambda>geom_type.
      pbind (get_bbox features) (\<lambda>bbox.
      pbind (py_len features) (\<lambda>n.
        Inr \<lparr>lr_id = layer_id,
             lr_name = str_title (str_replace ''-'' '' '' (str_replace ''_'' '' '' layer_id)),
             lr_source_file = filename,
             lr_geometry_type = geom_type,
             lr_feature_count = n,
             lr_bbox_west = fst bbox,
             lr_bbox_south = fst (snd bbox),
             lr_bbox_east = fst (snd (snd bbox)),
             lr_bbox_north = snd (snd (snd bbox))\<rparr>)))))"

text \<open>The body of \<^verbatim>\<open>for feature in batch\<close>.\<close>

definition load_feature :: "db \<Rightarrow> string \<Rightarrow> json \<Rightarrow> py_error + db" where
  "load_feature d layer_id feature =
     pbind (py_get feature ''geometry'' JNull) (\<lambda>geometry.
     pbind (py_get feature ''properties'' (JObj [])) (\<lambda>properties.
       let geom_json = (if truthy geometry then Some geometry else None) in
       pbind (get_centroid geometry) (\<lambda>centroid.
       pbind (if truthy geometry then py_get geometry ''type'' JNull else Inr JNull)
         (\<lambda>feat_geom_type.
           insert_feature d
             \<lparr>fr_layer_id = layer_id,
              fr_geometry_type = feat_geom_type,
              fr_geometry = geom_json,
              fr_centroid_lon = fst centroid,
              fr_centroid_lat = snd centroid,
              fr_properties = properties\<rparr>))))"

text \<open>One batch: an exception leaves the loop with the rows inserted so far.\<close>

fun load_batch :: "db \<Rightarrow> string \<Rightarrow> json list \<Rightarrow> db \<times> py_error option" where
  "load_batch d layer_id [] = (d, None)"
| "load_batch d layer_id (feature # rest) =
     (case load_feature d layer_id feature of
        Inl e \<Rightarrow> (d, Some e)
      | Inr d' \<Rightarrow> load_batch d' layer_id rest)"

text \<open>
  \<^verbatim>\<open>for i in range(0, len(features), batch_size)\<close>, with \<open>n\<close> the length taken once, and
  the \<^verbatim>\<open>commit\<close> after each batch.
\<close>

function load_batches :: "db \<Rightarrow> string \<Rightarrow> json \<Rightarrow> nat \<Rightarrow> nat \<Rightarrow> db \<times> py_error option" where
  "load_batches d layer_id features n i =
     (if i < n then
        (case pbind (py_slice features i (i + batch_size)) py_iter of
           Inl e \<Rightarrow> (d, Some e)
         | Inr batch \<Rightarrow>
             (case load_batch d layer_id batch of
                (d', Some e) \<Rightarrow> (d', Some e)
              | (d', None) \<Rightarrow>
                  load_batches (d'\<lparr>db_commits := Suc (db_commits d')\<rparr>) layer_id features n
                    (i + batch_size)))
      else (d, None))"
  by pat_completeness auto
termination
  by (relation "measure (\<lambda>(d, layer_id, features, n, i). n - i)") (auto simp: batch_size_def)

text \<open>The body of \<^verbatim>\<open>for filename in sorted(geojson_files)\<close> for one file.\<close>

definition load_file :: "db \<Rightarrow> artifact \<Rightarrow> db \<times> outcome" where
  "load_file d a =
    (if a_size a < 700 then (d, Skipped)
     else
       (case a_content a of
          None \<Rightarrow> (d, ParseError)
        | Some content \<Rightarrow>
            (case py_get content ''features'' (JArr []) of
               Inl e \<Rightarrow> (d, Failed e)
             | Inr features \<Rightarrow>
                 if \<not> truthy features then (d, NoFeatures)
                 else
                   (case layer_row_of (a_name a) features of
                      Inl e \<Rightarrow> (d, Failed e)
                    | Inr row \<Rightarrow>
                        (case insert_layer d row of
                           Inl e \<Rightarrow> (d, Failed e)
                         | Inr d1 \<Rightarrow>
                             (case load_batches d1 (lr_id row) features
                                     (lr_feature_count row) 0 of
                                (d2, Some e) \<Rightarrow> (d2, Failed e)
                              | (d2, None) \<Rightarrow> (d2, Loaded (lr_feature_count row))))))))"

text \<open>\<^verbatim>\<open>load_geojson_files\<close>: the files of the directory in name order, and the total.\<close>

fun load_all :: "db \<Rightarrow> artifact list \<Rightarrow> nat \<Rightarrow> db \<times> nat" where
  "load_all d [] total_features = (d, total_features)"
| "load_all d (a # rest) total_features =
     (case load_file d a of
        (d', Loaded n) \<Rightarrow> load_all d' rest (total_features + n)
      | (d', _) \<Rightarrow> load_all d' rest total_features)"

definition load_geojson_files :: "db \<Rightarrow> artifact list \<Rightarrow> db \<times> nat" where
  "load_geojson_files d listing =
     load_all d (sort_key a_name (filter (\<lambda>a. str_endswith (a_name a) ''.geojson'') listing)) 0"

text \<open>The database \<^verbatim>\<open>create_local_db\<close> hands to the loader: the schema, and no row.\<close>

definition create_local_db :: db where
  "create_local_db = \<lparr>db_layers = [], db_features = [], db_commits = 0\<rparr>"

section \<open>The words of the specification\<close>








text \<open>
  The vendor geometries whose \<^verbatim>\<open>paths\<close> and \<^verbatim>\<open>rings\<close> entries, where present, are lists.
\<close>

definition is_list :: "json \<Rightarrow> bool" where
  "is_list v = (case v of JArr xs \<Rightarrow> True | _ \<Rightarrow> False)"

definition list_payloads :: "(string \<times> json) list \<Rightarrow> bool" where
  "list_payloads g =
     ((case map_of g ''paths'' of None \<Rightarrow> True | Some v \<Rightarrow> is_list v) \<and>
      (case map_of g ''rings'' of None \<Rightarrow> True | Some v \<Rightarrow> is_list v))"

text \<open>
  An endpoint that holds the features \<open>fs\<close> and answers the request at an offset with
  the next page of them, at most \<open>page_size\<close> long; and the number of features a
  decoded body adds to the accumulator.
\<close>

definition exact_endpoint :: "json list \<Rightarrow> json \<Rightarrow> nat \<Rightarrow> response" where
  "exact_endpoint fs tag off =
     Body (JObj [(''features'', JArr (take page_size (drop off fs))), (''geometryType'', tag)])"

definition page_len :: "json \<Rightarrow> nat" where
  "page_len d =
     (case py_get d ''features'' (JArr []) of
        Inl e \<Rightarrow> 0
      | Inr features \<Rightarrow> (case py_iter features of Inl e \<Rightarrow> 0 | Inr fl \<Rightarrow> length fl))"

section \<open>Properties of the geometry translator\<close>

lemma map_of_Some_nonempty: "map_of g k = Some v \<Longrightarrow> g \<noteq> []"
  by auto

text \<open>
  Claim C1. For a vendor geometry object and its type tag the translator returns the
  standard form of the tag: a Point with fields \<open>x\<close> and \<open>y\<close> (numbers in particular)
  becomes \<^verbatim>\<open>{type: Point, coordinates: [x, y]}\<close>, in that order; a Polyline with exactly
  one path becomes a LineString whose coordinates are that path, and with two or more
  paths a MultiLineString of all paths; a Polygon with exactly one ring becomes a Polygon,
  and with two or more rings a MultiPolygon in which every ring is a single-ring polygon
  of its own; a Multipoint becomes a MultiPoint whose coordinates are the point list,
  unchanged.
\<close>

theorem translate_standard_forms:
  "(map_of g ''x'' = Some x \<and> map_of g ''y'' = Some y \<longrightarrow>
      esri_to_geojson_geometry (JObj g) (JStr ''esriGeometryPoint'') =
        Inr (JObj [(''type'', JStr ''Point''), (''coordinates'', JArr [x, y])]))
   \<and> (map_of g ''paths'' = Some (JArr [p]) \<longrightarrow>
      esri_to_geojson_geometry (JObj g) (JStr ''esriGeometryPolyline'') =
        Inr (JObj [(''type'', JStr ''LineString''), (''coordinates'', p)]))
   \<and> (map_of g ''paths'' = Some (JArr ps) \<and> 2 \<le> length ps \<longrightarrow>
      esri_to_geojson_geometry (JObj g) (JStr ''esriGeometryPolyline'') =
        Inr (JObj [(''type'', JStr ''MultiLineString''), (''coordinates'', JArr ps)]))
   \<and> (map_of g ''rings'' = Some (JArr [r]) \<longrightarrow>
      esri_to_geojson_geometry (JObj g) (JStr ''esriGeometryPolygon'') =
        Inr (JObj [(''type'', JStr ''Polygon''), (''coordinates'', JArr [r])]))
   \<and> (map_of g ''rings'' = Some (JArr rs) \<and> 2 \<le> length rs \<longrightarrow>
      esri_to_geojson_geometry (JObj g) (JStr ''esriGeometryPolygon'') =
        Inr (JObj [(''type'', JStr ''MultiPolygon''),
                   (''coordinates'', JArr (map (\<lambda>ring. JArr [ring]) rs))]))
   \<and> (map_of g ''points'' = Some pts \<longrightarrow>
      esri_to_geojson_geometry (JObj g) (JStr ''esriGeometryMultipoint'') =
        Inr (JObj [(''type'', JStr ''MultiPoint''), (''coordinates'', pts)]))"
  by (auto simp: esri_to_geojson_geometry_def dest: map_of_Some_nonempty)

theorem translate_standard_forms_witness:
  "esri_to_geojson_geometry (JObj [(''x'', JNum (- 141 / 2)), (''y'', JNum (- 167 / 5))])
       (JStr ''esriGeometryPoint'') =
     Inr (JObj [(''type'', JStr ''Point''),
                (''coordinates'', JArr [JNum (- 141 / 2), JNum (- 167 / 5)])])
   \<and> esri_to_geojson_geometry (JObj [(''paths'', JArr [JArr [JArr [JNum 0, JNum 0], JArr [JNum 1, JNum 1]]])])
       (JStr ''esriGeometryPolyline'') =
     Inr (JObj [(''type'', JStr ''LineString''),
                (''coordinates'', JArr [JArr [JNum 0, JNum 0], JArr [JNum 1, JNum 1]])])
   \<and> esri_to_geojson_geometry (JObj [(''paths'', JArr [JArr [JArr [JNum 0, JNum 0]], JArr []])])
       (JStr ''esriGeometryPolyline'') =
     Inr (JObj [(''type'', JStr ''MultiLineString''),
                (''coordinates'', JArr [JArr [JArr [JNum 0, JNum 0]], JArr []])])
   \<and> esri_to_geojson_geometry (JObj [(''rings'', JArr [JArr [JArr [JNum 0, JNum 0]]])])
       (JStr ''esriGeometryPolygon'') =
     Inr (JObj [(''type'', JStr ''Polygon''), (''coordinates'', JArr [JArr [JArr [JNum 0, JNum 0]]])])
   \<and> esri_to_geojson_geometry (JObj [(''rings'', JArr [JArr [JArr [JNum 0, JNum 0]], JArr [JArr [JNum 5, JNum 5]]])])
       (JStr ''esriGeometryPolygon'') =
     Inr (JObj [(''type'', JStr ''MultiPolygon''),
                (''coordinates'', JArr [JArr [JArr [JArr [JNum 0, JNum 0]]],
                                       JArr [JArr [JArr [JNum 5, JNum 5]]]])])
   \<and> esri_to_geojson_geometry (JObj [(''points'', JArr [JArr [JNum 3, JNum 4]])])
       (JStr ''esriGeometryMultipoint'') =
     Inr (JObj [(''type'', JStr ''MultiPoint''), (''coordinates'', JArr [JArr [JNum 3, JNum 4]])])"
proof -
  have a: "esri_to_geojson_geometry (JObj [(''x'', JNum (- 141 / 2)), (''y'', JNum (- 167 / 5))])
       (JStr ''esriGeometryPoint'') =
     Inr (JObj [(''type'', JStr ''Point''),
                (''coordinates'', JArr [JNum (- 141 / 2), JNum (- 167 / 5)])])"
    using translate_standard_forms
      [where g = "[(''x'', JNum (- 141 / 2)), (''y'', JNum (- 167 / 5))]"
         and x = "JNum (- 141 / 2)" and y = "JNum (- 167 / 5)"]
    by simp
  have b: "esri_to_geojson_geometry (JObj [(''paths'', JArr [JArr [JArr [JNum 0, JNum 0], JArr [JNum 1, JNum 1]]])])
       (JStr ''esriGeometryPolyline'') =
     Inr (JObj [(''type'', JStr ''LineString''),
                (''coordinates'', JArr [JArr [JNum 0, JNum 0], JArr [JNum 1, JNum 1]])])"
    using translate_standard_forms
      [where g = "[(''paths'', JArr [JArr [JArr [JNum 0, JNum 0], JArr [JNum 1, JNum 1]]])]"
         and p = "JArr [JArr [JNum 0, JNum 0], JArr [JNum 1, JNum 1]]"]
    by simp
  have c: "esri_to_geojson_geometry (JObj [(''paths'', JArr [JArr [JArr [JNum 0, JNum 0]], JArr []])])
       (JStr ''esriGeometryPolyline'') =
     Inr (JObj [(''type'', JStr ''MultiLineString''),
                (''coordinates'', JArr [JArr [JArr [JNum 0, JNum 0]], JArr []])])"
    using translate_standard_forms
      [where g = "[(''paths'', JArr [JArr [JArr [JNum 0, JNum 0]], JArr []])]"
         and ps = "[JArr [JArr [JNum 0, JNum 0]], JArr []]"]
    by simp
  have d: "esri_to_geojson_geometry (JObj [(''rings'', JArr [JArr [JArr [JNum 0, JNum 0]]])])
       (JStr ''esriGeometryPolygon'') =
     Inr (JObj [(''type'', JStr ''Polygon''), (''coordinates'', JArr [JArr [JArr [JNum 0, JNum 0]]])])"
    using translate_standard_forms
      [where g = "[(''rings'', JArr [JArr [JArr [JNum 0, JNum 0]]])]"
         and r = "JArr [JArr [JNum 0, JNum 0]]"]
    by simp
  have e: "esri_to_geojson_geometry (JObj [(''rings'', JArr [JArr [JArr [JNum 0, JNum 0]], JArr [JArr [JNum 5, JNum 5]]])])
       (JStr ''esriGeometryPolygon'') =
     Inr (JObj [(''type'', JStr ''MultiPolygon''),
                (''coordinates'', JArr [JArr [JArr [JArr [JNum 0, JNum 0]]],
                                       JArr [JArr [JArr [JNum 5, JNum 5]]]])])"
    using translate_standard_forms
      [where g = "[(''rings'', JArr [JArr [JArr [JNum 0, JNum 0]], JArr [JArr [JNum 5, JNum 5]]])]"
         and rs = "[JArr [JArr [JNum 0, JNum 0]], JArr [JArr [JNum 5, JNum 5]]]"]
    by simp
  have f: "esri_to_geojson_geometry (JObj [(''points'', JArr [JArr [JNum 3, JNum 4]])])
       (JStr ''esriGeometryMultipoint'') =
     Inr (JObj [(''type'', JStr ''MultiPoint''), (''coordinates'', JArr [JArr [JNum 3, JNum 4]])])"
    using translate_standard_forms
      [where g = "[(''points'', JArr [JArr [JNum 3, JNum 4]])]"
         and pts = "JArr [JArr [JNum 3, JNum 4]]"]
    by simp
  from a b c d e f show ?thesis by blast
qed

text \<open>
  Claim C2, as stated, fails: a Polyline tag on an object whose \<^verbatim>\<open>paths\<close> entry is
  \<^verbatim>\<open>null\<close> reaches \<^verbatim>\<open>len(None)\<close>, and the TypeError leaves the function.
\<close>

theorem translate_null_paths_raises:
  "esri_to_geojson_geometry (JObj [(''paths'', JNull)]) (JStr ''esriGeometryPolyline'') = Inl TypeError"
  by (simp add: esri_to_geojson_geometry_def)

lemma list_payloads_paths:
  "list_payloads g \<Longrightarrow> map_of g ''paths'' = Some v \<Longrightarrow> \<exists>xs. v = JArr xs"
  by (auto simp: list_payloads_def is_list_def split: json.splits)

lemma list_payloads_rings:
  "list_payloads g \<Longrightarrow> map_of g ''rings'' = Some v \<Longrightarrow> \<exists>xs. v = JArr xs"
  by (auto simp: list_payloads_def is_list_def split: json.splits)

lemma translate_returns:
  assumes "list_payloads g"
  shows "\<exists>r. esri_to_geojson_geometry (JObj g) t = Inr r"
proof (cases "g = []")
  case True
  then show ?thesis by (simp add: esri_to_geojson_geometry_def)
next
  case False
  show ?thesis
  proof (cases "map_of g ''paths''")
    case None
    note np = None
    show ?thesis
    proof (cases "map_of g ''rings''")
      case None
      with np False show ?thesis
        by (auto simp: esri_to_geojson_geometry_def split: option.splits)
    next
      case (Some v)
      then obtain xs where "v = JArr xs" using list_payloads_rings[OF assms] by blast
      with Some np False show ?thesis
        by (auto simp: esri_to_geojson_geometry_def split: option.splits)
    qed
  next
    case (Some w)
    then obtain ys where w: "w = JArr ys" using list_payloads_paths[OF assms] by blast
    note sp = Some
    show ?thesis
    proof (cases "map_of g ''rings''")
      case None
      with sp w False show ?thesis
        by (auto simp: esri_to_geojson_geometry_def split: option.splits)
    next
      case (Some v)
      then obtain xs where "v = JArr xs" using list_payloads_rings[OF assms] by blast
      with Some sp w False show ?thesis
        by (auto simp: esri_to_geojson_geometry_def split: option.splits)
    qed
  qed
qed

text \<open>
  Claim C2, amended. For every type tag, and every vendor geometry that is empty or
  absent, or an object whose \<^verbatim>\<open>paths\<close> and \<^verbatim>\<open>rings\<close> entries (where present) are lists,
  the translator returns and raises nothing. It returns null for an empty or absent
  geometry, for a tag that is none of the four, and for an object that lacks the entry
  of its tag: \<open>x\<close> or \<open>y\<close> under Point, \<^verbatim>\<open>paths\<close> under Polyline, \<^verbatim>\<open>rings\<close> under Polygon,
  \<^verbatim>\<open>points\<close> under Multipoint.
\<close>

theorem translate_total_on_list_payloads:
  "(\<not> truthy v \<longrightarrow> esri_to_geojson_geometry v t = Inr JNull)
   \<and> (list_payloads g \<longrightarrow> (\<exists>r. esri_to_geojson_geometry (JObj g) t = Inr r))
   \<and> (t \<noteq> JStr ''esriGeometryPoint'' \<and> t \<noteq> JStr ''esriGeometryPolyline'' \<and>
      t \<noteq> JStr ''esriGeometryPolygon'' \<and> t \<noteq> JStr ''esriGeometryMultipoint'' \<longrightarrow>
        esri_to_geojson_geometry v t = Inr JNull)
   \<and> (map_of g ''x'' = None \<or> map_of g ''y'' = None \<longrightarrow>
        esri_to_geojson_geometry (JObj g) (JStr ''esriGeometryPoint'') = Inr JNull)
   \<and> (map_of g ''paths'' = None \<longrightarrow>
        esri_to_geojson_geometry (JObj g) (JStr ''esriGeometryPolyline'') = Inr JNull)
   \<and> (map_of g ''rings'' = None \<longrightarrow>
        esri_to_geojson_geometry (JObj g) (JStr ''esriGeometryPolygon'') = Inr JNull)
   \<and> (map_of g ''points'' = None \<longrightarrow>
        esri_to_geojson_geometry (JObj g) (JStr ''esriGeometryMultipoint'') = Inr JNull)"
proof (intro conjI impI)
  assume "list_payloads g"
  then show "\<exists>r. esri_to_geojson_geometry (JObj g) t = Inr r"
    by (rule translate_returns)
qed (auto simp: esri_to_geojson_geometry_def)

theorem translate_total_on_list_payloads_witness:
  "esri_to_geojson_geometry JNull (JStr ''esriGeometryPoint'') = Inr JNull
   \<and> esri_to_geojson_geometry (JObj []) (JStr ''esriGeometryPolygon'') = Inr JNull
   \<and> list_payloads [(''paths'', JArr [])]
   \<and> (\<exists>r. esri_to_geojson_geometry (JObj [(''paths'', JArr [])]) (JStr ''esriGeometryPolyline'') = Inr r)
   \<and> esri_to_geojson_geometry (JObj [(''x'', JNum 1), (''y'', JNum 2)]) (JStr ''esriGeometryEnvelope'') = Inr JNull
   \<and> esri_to_geojson_geometry (JObj [(''x'', JNum 1)]) (JStr ''esriGeometryPoint'') = Inr JNull
   \<and> esri_to_geojson_geometry (JObj [(''x'', JNum 1)]) (JStr ''esriGeometryPolyline'') = Inr JNull
   \<and> esri_to_geojson_geometry (JObj [(''x'', JNum 1)]) (JStr ''esriGeometryPolygon'') = Inr JNull
   \<and> esri_to_geojson_geometry (JObj [(''x'', JNum 1)]) (JStr ''esriGeometryMultipoint'') = Inr JNull"
proof -
  have lp: "list_payloads [(''paths'', JArr [])]"
    by (simp add: list_payloads_def is_list_def)
  have a: "esri_to_geojson_geometry JNull (JStr ''esriGeometryPoint'') = Inr JNull"
    using translate_total_on_list_payloads [where v = JNull and t = "JStr ''esriGeometryPoint''"]
    by simp
  have b: "esri_to_geojson_geometry (JObj []) (JStr ''esriGeometryPolygon'') = Inr JNull"
    using translate_total_on_list_payloads [where v = "JObj []" and t = "JStr ''esriGeometryPolygon''"]
    by simp
  have c: "\<exists>r. esri_to_geojson_geometry (JObj [(''paths'', JArr [])]) (JStr ''esriGeometryPolyline'') = Inr r"
    using translate_total_on_list_payloads
      [where g = "[(''paths'', JArr [])]" and t = "JStr ''esriGeometryPolyline''"] lp
    by blast
  have d: "esri_to_geojson_geometry (JObj [(''x'', JNum 1), (''y'', JNum 2)]) (JStr ''esriGeometryEnvelope'') = Inr JNull"
    using translate_total_on_list_payloads
      [where v = "JObj [(''x'', JNum 1), (''y'', JNum 2)]" and t = "JStr ''esriGeometryEnvelope''"]
    by simp
  have e: "esri_to_geojson_geometry (JObj [(''x'', JNum 1)]) (JStr ''esriGeometryPoint'') = Inr JNull
    \<and> esri_to_geojson_geometry (JObj [(''x'', JNum 1)]) (JStr ''esriGeometryPolyline'') = Inr JNull
    \<and> esri_to_geojson_geometry (JObj [(''x'', JNum 1)]) (JStr ''esriGeometryPolygon'') = Inr JNull
    \<and> esri_to_geojson_geometry (JObj [(''x'', JNum 1)]) (JStr ''esriGeometryMultipoint'') = Inr JNull"
    using translate_total_on_list_payloads [where g = "[(''x'', JNum 1)]"]
    by simp
  from lp a b c d e show ?thesis by blast
qed

section \<open>Properties of the centroid\<close>

subsection \<open>Sequencing and comprehensions\<close>





lemma concat_map_concat: "concat (map concat xss) = concat (concat xss)"
  by (induction xss) simp_all

lemma pmap_iter_arrays: "pmap py_iter (map JArr xss) = Inr xss"
  by (induction xss) simp_all

lemma pmap_iter_polys:
  "pmap (\<lambda>poly. pbind (py_iter poly) (\<lambda>rings. pbind (pmap py_iter rings) (\<lambda>css. Inr (concat css))))
     (map (\<lambda>rings. JArr (map JArr rings)) polys) = Inr (map concat polys)"
  by (induction polys) (simp_all add: pmap_iter_arrays)

subsection \<open>The mean of a list of positions\<close>







subsection \<open>The centroid of each geometry type\<close>

lemma get_centroid_obj:
  "map_of g ''type'' = Some t \<Longrightarrow> map_of g ''coordinates'' = Some c \<Longrightarrow> truthy c \<Longrightarrow>
   get_centroid (JObj g) =
     (case centroid_try t c of
        Inl e \<Rightarrow> if e = IndexError \<or> e = TypeError then Inr (JNull, JNull) else Inl e
      | Inr (Some r) \<Rightarrow> Inr r
      | Inr None \<Rightarrow> Inr (JNull, JNull))"
  by (auto simp: get_centroid_def)








lemma centroid_polygon_empty_ring:
  "map_of g ''type'' = Some (JStr ''Polygon'') \<Longrightarrow>
   map_of g ''coordinates'' = Some (JArr (JArr [] # holes)) \<Longrightarrow>
   get_centroid (JObj g) = Inr (JNull, JNull)"
  by (simp add: get_centroid_obj centroid_try_def)


lemma centroid_multilinestring_empty:
  "map_of g ''type'' = Some (JStr ''MultiLineString'') \<Longrightarrow>
   map_of g ''coordinates'' = Some (JArr (map JArr lines)) \<Longrightarrow>
   concat lines = [] \<Longrightarrow>
   get_centroid (JObj g) = Inr (JNull, JNull)"
  by (cases "lines = []")
     (simp_all add: get_centroid_obj get_centroid_def centroid_try_def pmap_iter_arrays)


lemma centroid_multipolygon_empty:
  "map_of g ''type'' = Some (JStr ''MultiPolygon'') \<Longrightarrow>
   map_of g ''coordinates'' = Some (JArr (map (\<lambda>rings. JArr (map JArr rings)) polys)) \<Longrightarrow>
   concat (concat polys) = [] \<Longrightarrow>
   get_centroid (JObj g) = Inr (JNull, JNull)"
  by (cases "polys = []")
     (simp_all add: get_centroid_obj get_centroid_def centroid_try_def pmap_iter_polys
        concat_map_concat del: concat_eq_Nil_conv)



subsection \<open>Which exceptions leave the centroid\<close>






lemma iter_nonempty: "truthy v \<Longrightarrow> py_iter v = Inr xs \<Longrightarrow> xs \<noteq> []"
  by (cases v) auto














section \<open>Properties of the paginated fetcher\<close>

declare query_loop.simps [simp del]

lemma page_size_pos: "0 < page_size"
  by (simp add: page_size_def)

lemma page_body_good:
  assumes "map_of kvs ''error'' = None" and "map_of kvs ''features'' = Some (JArr fl)" and "fl \<noteq> []"
  shows "page_body mx acc (JObj kvs) =
           (acc @ fl, \<not> (length fl < page_size \<or> mx \<le> int (length (acc @ fl))))"
  using assms by (simp add: page_body_def)

lemma page_body_error:
  "map_of kvs ''error'' \<noteq> None \<Longrightarrow> page_body mx acc (JObj kvs) = (acc, False)"
  by (auto simp: page_body_def)

lemma page_body_length:
  "length (fst (page_body mx acc d)) \<le> length acc + page_len d"
  by (auto simp: page_body_def page_len_def split: sum.splits)

lemma page_body_continue:
  "snd (page_body mx acc d) \<Longrightarrow> int (length (fst (page_body mx acc d))) < mx"
  by (auto simp: page_body_def split: sum.splits if_splits)

lemma query_loop_failure:
  "server (s_offset s) = Failure \<Longrightarrow>
     query_loop server mx s = s\<lparr>s_requests := Suc (s_requests s)\<rparr>"
  by (subst query_loop.simps) simp

lemma query_loop_body:
  "server (s_offset s) = Body d \<Longrightarrow>
     query_loop server mx s =
       (if snd (page_body mx (s_all_features s) d)
        then query_loop server mx
               (s\<lparr>s_all_features := fst (page_body mx (s_all_features s) d), s_data := Some d,
                   s_requests := Suc (s_requests s), s_offset := s_offset s + page_size\<rparr>)
        else s\<lparr>s_all_features := fst (page_body mx (s_all_features s) d), s_data := Some d,
                s_requests := Suc (s_requests s)\<rparr>)"
  by (subst query_loop.simps) (simp add: Let_def)

subsection \<open>The endpoint that holds exactly \<open>max_records\<close> features\<close>

lemma exact_run:
  assumes mx: "int (length fs) = mx"
  shows "s_offset s < length fs \<Longrightarrow> s_all_features s = take (s_offset s) fs \<Longrightarrow>
     s_all_features (query_loop (exact_endpoint fs tag) mx s) = fs \<and>
     s_requests (query_loop (exact_endpoint fs tag) mx s) =
       s_requests s + (length fs - s_offset s + page_size - 1) div page_size \<and>
     (\<exists>kvs. s_data (query_loop (exact_endpoint fs tag) mx s) = Some (JObj kvs) \<and>
            map_of kvs ''geometryType'' = Some tag)"
proof (induction "length fs - s_offset s" arbitrary: s rule: less_induct)
  case less
  let ?o = "s_offset s"
  let ?page = "take page_size (drop ?o fs)"
  let ?kvs = "[(''features'', JArr ?page), (''geometryType'', tag)]"
  have srv: "exact_endpoint fs tag ?o = Body (JObj ?kvs)"
    by (simp add: exact_endpoint_def)
  have ne: "?page \<noteq> []"
    using less.prems(1) page_size_pos by simp
  have acc: "s_all_features s @ ?page = take (?o + page_size) fs"
    using less.prems(2) by (simp add: take_add)
  have pb: "page_body mx (s_all_features s) (JObj ?kvs) =
      (take (?o + page_size) fs,
       \<not> (length ?page < page_size \<or> mx \<le> int (length (take (?o + page_size) fs))))"
    using page_body_good[of ?kvs ?page mx "s_all_features s"] ne acc by simp
  show ?case
  proof (cases "length fs \<le> ?o + page_size")
    case True
    then have stop: "\<not> snd (page_body mx (s_all_features s) (JObj ?kvs))"
      and all: "fst (page_body mx (s_all_features s) (JObj ?kvs)) = fs"
      using pb mx by auto
    have "(length fs - ?o + page_size - 1) div page_size = 1"
      using True less.prems(1) by (simp add: page_size_def)
    with stop all show ?thesis
      by (simp add: query_loop_body[where server = "exact_endpoint fs tag" and s = s, OF srv])
  next
    case False
    then have go: "snd (page_body mx (s_all_features s) (JObj ?kvs))"
      and all: "fst (page_body mx (s_all_features s) (JObj ?kvs)) = take (?o + page_size) fs"
      using pb mx by auto
    let ?s' = "s\<lparr>s_all_features := take (?o + page_size) fs, s_data := Some (JObj ?kvs),
                   s_requests := Suc (s_requests s), s_offset := ?o + page_size\<rparr>"
    have step: "query_loop (exact_endpoint fs tag) mx s = query_loop (exact_endpoint fs tag) mx ?s'"
      using go all by (simp add: query_loop_body[where server = "exact_endpoint fs tag" and s = s, OF srv])
    have "length fs - s_offset ?s' < length fs - ?o"
      using False page_size_pos by simp
    moreover have "s_offset ?s' < length fs" using False by simp
    moreover have "s_all_features ?s' = take (s_offset ?s') fs" by simp
    ultimately have ih:
      "s_all_features (query_loop (exact_endpoint fs tag) mx ?s') = fs \<and>
       s_requests (query_loop (exact_endpoint fs tag) mx ?s') =
         s_requests ?s' + (length fs - s_offset ?s' + page_size - 1) div page_size \<and>
       (\<exists>kvs. s_data (query_loop (exact_endpoint fs tag) mx ?s') = Some (JObj kvs) \<and>
              map_of kvs ''geometryType'' = Some tag)"
      by (rule less.hyps)
    have "Suc ((length fs - (?o + page_size) + page_size - 1) div page_size) =
          (length fs - ?o + page_size - 1) div page_size"
      using False by (simp add: page_size_def)
    with ih step show ?thesis by simp
  qed
qed

lemma exact_layer:
  assumes "1 \<le> mx" and "int (length fs) = mx"
  shows "s_requests (query_layer_run (exact_endpoint fs tag) mx) =
           (length fs + page_size - 1) div page_size"
    and "s_all_features (query_layer_run (exact_endpoint fs tag) mx) = fs"
    and "query_layer (exact_endpoint fs tag) mx =
           Inr (JObj [(''features'', JArr fs), (''geometryType'', tag)])"
proof -
  let ?init = "\<lparr>s_all_features = [], s_offset = 0, s_data = None, s_requests = 0\<rparr>"
  from assms have pos: "s_offset ?init < length fs" by auto
  have run: "s_all_features (query_loop (exact_endpoint fs tag) mx ?init) = fs \<and>
     s_requests (query_loop (exact_endpoint fs tag) mx ?init) =
       s_requests ?init + (length fs - s_offset ?init + page_size - 1) div page_size \<and>
     (\<exists>kvs. s_data (query_loop (exact_endpoint fs tag) mx ?init) = Some (JObj kvs) \<and>
            map_of kvs ''geometryType'' = Some tag)"
    using exact_run[OF assms(2) pos] by simp
  then show "s_requests (query_layer_run (exact_endpoint fs tag) mx) =
           (length fs + page_size - 1) div page_size"
    and "s_all_features (query_layer_run (exact_endpoint fs tag) mx) = fs"
    by (simp_all add: query_layer_run_def)
  from assms have "fs \<noteq> []" by auto
  moreover from run obtain kvs where
    "s_data (query_layer_run (exact_endpoint fs tag) mx) = Some (JObj kvs)"
    "map_of kvs ''geometryType'' = Some tag"
    "s_all_features (query_layer_run (exact_endpoint fs tag) mx) = fs"
    by (auto simp: query_layer_run_def)
  ultimately show "query_layer (exact_endpoint fs tag) mx =
           Inr (JObj [(''features'', JArr fs), (''geometryType'', tag)])"
    by (simp add: query_layer_def Let_def)
qed

subsection \<open>The ceiling on the accumulator\<close>

lemma bound_run:
  "\<forall>off d. server off = Body d \<longrightarrow> page_len d \<le> page_size \<Longrightarrow>
   int (length (s_all_features s)) < mx \<Longrightarrow>
     int (length (s_all_features (query_loop server mx s))) \<le> mx + int page_size - 1"
proof (induction server mx s rule: query_loop.induct)
  case (1 server mx s)
  note pages = "1.prems"(1) and below = "1.prems"(2)
  show ?case
  proof (cases "server (s_offset s)")
    case Failure
    with below show ?thesis by (simp add: query_loop_failure)
  next
    case (Body d)
    let ?r = "page_body mx (s_all_features s) d"
    from pages Body have "page_len d \<le> page_size" by blast
    then have len: "length (fst ?r) \<le> length (s_all_features s) + page_size"
      using page_body_length[of mx "s_all_features s" d] by linarith
    show ?thesis
    proof (cases "snd ?r")
      case True
      let ?s' = "s\<lparr>s_all_features := fst ?r, s_data := Some d, s_requests := Suc (s_requests s)\<rparr>"
      have "int (length (s_all_features (?s'\<lparr>s_offset := s_offset s + page_size\<rparr>))) < mx"
        using page_body_continue[OF True] by simp
      with "1.IH"[OF Body refl refl True pages]
      have "int (length (s_all_features
              (query_loop server mx (?s'\<lparr>s_offset := s_offset s + page_size\<rparr>))))
            \<le> mx + int page_size - 1" .
      with True show ?thesis
        by (simp add: query_loop_body[where server = server and s = s, OF Body])
    next
      case False
      with len below show ?thesis
        by (simp add: query_loop_body[where server = server and s = s, OF Body])
    qed
  qed
qed

text \<open>
  Claim C3. For \<open>max_records \<ge> 1\<close> and an endpoint that holds exactly \<open>max_records\<close>
  features and answers each request with the next page of at most \<open>page_size\<close> of them,
  the loop issues exactly \<open>ceil(max_records / page_size)\<close> requests (written
  \<open>(n + page_size - 1) div page_size\<close>) and returns all the features. In general the
  loop stops at once on a page shorter than \<open>page_size\<close> and on a page that brings the
  accumulator to \<open>max_records\<close>; so, against any endpoint whose pages are no longer than
  \<open>page_size\<close>, the accumulator never exceeds \<open>max_records + page_size - 1\<close>.
\<close>

theorem pagination_requests_and_ceiling:
  "(1 \<le> mx \<and> int (length fs) = mx \<longrightarrow>
      s_requests (query_layer_run (exact_endpoint fs tag) mx)
        = (length fs + page_size - 1) div page_size
      \<and> query_layer (exact_endpoint fs tag) mx
        = Inr (JObj [(''features'', JArr fs), (''geometryType'', tag)]))
   \<and> (server (s_offset s) = Body (JObj kvs) \<and> map_of kvs ''error'' = None \<and>
      map_of kvs ''features'' = Some (JArr fl) \<and> fl \<noteq> [] \<and>
      (length fl < page_size \<or> mx \<le> int (length (s_all_features s @ fl))) \<longrightarrow>
      query_loop server mx s =
        s\<lparr>s_all_features := s_all_features s @ fl, s_data := Some (JObj kvs),
           s_requests := Suc (s_requests s)\<rparr>)
   \<and> (1 \<le> mx \<and> (\<forall>off d. server off = Body d \<longrightarrow> page_len d \<le> page_size) \<longrightarrow>
      int (length (s_all_features (query_layer_run server mx))) \<le> mx + int page_size - 1)"
proof (intro conjI impI)
  assume "1 \<le> mx \<and> int (length fs) = mx"
  then show "s_requests (query_layer_run (exact_endpoint fs tag) mx)
        = (length fs + page_size - 1) div page_size"
    and "query_layer (exact_endpoint fs tag) mx
        = Inr (JObj [(''features'', JArr fs), (''geometryType'', tag)])"
    using exact_layer(1,3) by blast+
next
  assume a: "server (s_offset s) = Body (JObj kvs) \<and> map_of kvs ''error'' = None \<and>
      map_of kvs ''features'' = Some (JArr fl) \<and> fl \<noteq> [] \<and>
      (length fl < page_size \<or> mx \<le> int (length (s_all_features s @ fl)))"
  then have "page_body mx (s_all_features s) (JObj kvs) = (s_all_features s @ fl, False)"
    using page_body_good[of kvs fl mx "s_all_features s"] by auto
  with a show "query_loop server mx s =
        s\<lparr>s_all_features := s_all_features s @ fl, s_data := Some (JObj kvs),
           s_requests := Suc (s_requests s)\<rparr>"
    by (simp add: query_loop_body[where server = server and s = s and d = "JObj kvs"])
next
  assume a: "1 \<le> mx \<and> (\<forall>off d. server off = Body d \<longrightarrow> page_len d \<le> page_size)"
  then have "int (length (s_all_features
      \<lparr>s_all_features = [], s_offset = 0, s_data = None, s_requests = 0\<rparr>)) < mx"
    by simp
  with a show "int (length (s_all_features (query_layer_run server mx))) \<le> mx + int page_size - 1"
    unfolding query_layer_run_def by (intro bound_run) blast+
qed

theorem pagination_requests_and_ceiling_witness:
  "(1::int) \<le> 2500 \<and> int (length (replicate 2500 JNull)) = 2500
   \<and> s_requests (query_layer_run (exact_endpoint (replicate 2500 JNull) (JStr ''esriGeometryPoint'')) 2500) = 3
   \<and> query_layer (exact_endpoint (replicate 2500 JNull) (JStr ''esriGeometryPoint'')) 2500
        = Inr (JObj [(''features'', JArr (replicate 2500 JNull)),
                     (''geometryType'', JStr ''esriGeometryPoint'')])
   \<and> query_loop (\<lambda>off. Body (JObj [(''features'', JArr [JNull, JNull])])) 10000
        \<lparr>s_all_features = [], s_offset = 0, s_data = None, s_requests = 0\<rparr>
      = \<lparr>s_all_features = [JNull, JNull], s_offset = 0,
         s_data = Some (JObj [(''features'', JArr [JNull, JNull])]), s_requests = 1\<rparr>
   \<and> int (length (s_all_features
        (query_layer_run (exact_endpoint (replicate 5000 JNull) (JStr ''esriGeometryPoint'')) 2500)))
        \<le> 2500 + int page_size - 1"
proof -
  have h: "(1::int) \<le> 2500 \<and> int (length (replicate 2500 JNull)) = 2500"
    by simp
  have a: "s_requests (query_layer_run (exact_endpoint (replicate 2500 JNull) (JStr ''esriGeometryPoint'')) 2500) = 3
    \<and> query_layer (exact_endpoint (replicate 2500 JNull) (JStr ''esriGeometryPoint'')) 2500
        = Inr (JObj [(''features'', JArr (replicate 2500 JNull)),
                     (''geometryType'', JStr ''esriGeometryPoint'')])"
    using pagination_requests_and_ceiling
      [where mx = 2500 and fs = "replicate 2500 JNull" and tag = "JStr ''esriGeometryPoint''"]
    by (simp add: page_size_def)
  have b: "query_loop (\<lambda>off. Body (JObj [(''features'', JArr [JNull, JNull])])) 10000
        \<lparr>s_all_features = [], s_offset = 0, s_data = None, s_requests = 0\<rparr>
      = \<lparr>s_all_features = [JNull, JNull], s_offset = 0,
         s_data = Some (JObj [(''features'', JArr [JNull, JNull])]), s_requests = 1\<rparr>"
    using pagination_requests_and_ceiling
      [where server = "\<lambda>off. Body (JObj [(''features'', JArr [JNull, JNull])])"
         and s = "\<lparr>s_all_features = [], s_offset = 0, s_data = None, s_requests = 0\<rparr>"
         and kvs = "[(''features'', JArr [JNull, JNull])]" and fl = "[JNull, JNull]"
         and mx = 10000]
    by (simp add: page_size_def)
  have p: "\<forall>off d. exact_endpoint (replicate 5000 JNull) (JStr ''esriGeometryPoint'') off = Body d
             \<longrightarrow> page_len d \<le> page_size"
    by (simp add: exact_endpoint_def page_len_def)
  have c: "int (length (s_all_features
        (query_layer_run (exact_endpoint (replicate 5000 JNull) (JStr ''esriGeometryPoint'')) 2500)))
        \<le> 2500 + int page_size - 1"
    using pagination_requests_and_ceiling
      [where server = "exact_endpoint (replicate 5000 JNull) (JStr ''esriGeometryPoint'')"
         and mx = 2500] p
    by simp
  from h a b c show ?thesis by blast
qed

subsection \<open>A failure after full pages\<close>

lemma good_pages_run:
  "\<forall>i<k. server (i * page_size) = Body (JObj (kv i)) \<and> map_of (kv i) ''error'' = None \<and>
      map_of (kv i) ''features'' = Some (JArr (pg i)) \<and> page_size \<le> length (pg i) \<and>
      int (length (concat (map pg [0..<Suc i]))) < mx \<Longrightarrow>
   query_layer_run server mx =
     query_loop server mx
       \<lparr>s_all_features = concat (map pg [0..<k]), s_offset = k * page_size,
        s_data = (if k = 0 then None else Some (JObj (kv (k - 1)))), s_requests = k\<rparr>"
proof (induction k)
  case 0
  then show ?case by (simp add: query_layer_run_def)
next
  case (Suc k)
  let ?s = "\<lparr>s_all_features = concat (map pg [0..<k]), s_offset = k * page_size,
        s_data = (if k = 0 then None else Some (JObj (kv (k - 1)))), s_requests = k\<rparr>"
  from Suc.prems have ih: "query_layer_run server mx = query_loop server mx ?s"
    by (intro Suc.IH) simp
  from Suc.prems have srv: "server (s_offset ?s) = Body (JObj (kv k))"
    and ne: "map_of (kv k) ''error'' = None"
    and ft: "map_of (kv k) ''features'' = Some (JArr (pg k))"
    and full: "page_size \<le> length (pg k)"
    and below: "int (length (concat (map pg [0..<Suc k]))) < mx"
    by simp_all
  from full page_size_pos have "pg k \<noteq> []" by auto
  with ne ft full below
  have pb: "page_body mx (s_all_features ?s) (JObj (kv k)) = (concat (map pg [0..<Suc k]), True)"
    using page_body_good[of "kv k" "pg k" mx "s_all_features ?s"] by simp
  have "query_loop server mx ?s =
      query_loop server mx
        \<lparr>s_all_features = concat (map pg [0..<Suc k]), s_offset = Suc k * page_size,
         s_data = Some (JObj (kv k)), s_requests = Suc k\<rparr>"
    using pb by (simp add: query_loop_body[where server = server and s = "?s", OF srv] add.commute)
  with ih show ?case by simp
qed

lemma failing_page_stops:
  assumes "server (s_offset s) = Failure \<or>
           (\<exists>e. server (s_offset s) = Body (JObj e) \<and> map_of e ''error'' \<noteq> None)"
  shows "s_all_features (query_loop server mx s) = s_all_features s"
    and "s_requests (query_loop server mx s) = Suc (s_requests s)"
    and "s_data (query_loop server mx s) = s_data s \<or>
         (\<exists>e. s_data (query_loop server mx s) = Some (JObj e))"
  using assms
  by (auto simp: query_loop_failure page_body_error
        query_loop_body[where server = server and s = s])

lemma finish_with_object:
  assumes "s_data (query_layer_run server mx) = None \<or>
           (\<exists>e. s_data (query_layer_run server mx) = Some (JObj e))"
  shows "\<exists>tag. query_layer server mx =
           Inr (JObj [(''features'', JArr (s_all_features (query_layer_run server mx))),
                      (''geometryType'', tag)])"
  using assms by (auto simp: query_layer_def Let_def split: option.splits)

text \<open>
  Claim C4. When \<open>k\<close> full pages succeed and the next response is a transport, timeout
  or decoding failure, or carries an \<^verbatim>\<open>error\<close> entry, the loop ends with that request
  (it is request \<open>k + 1\<close>, and none follows), and \<^verbatim>\<open>query_layer\<close> returns a result, not an
  exception, whose features are exactly those of the \<open>k\<close> pages, in order.
\<close>

theorem failure_keeps_partial_result:
  "(\<forall>i<k. server (i * page_size) = Body (JObj (kv i)) \<and> map_of (kv i) ''error'' = None \<and>
        map_of (kv i) ''features'' = Some (JArr (pg i)) \<and> page_size \<le> length (pg i) \<and>
        int (length (concat (map pg [0..<Suc i]))) < mx) \<and>
   (server (k * page_size) = Failure \<or>
    (\<exists>e. server (k * page_size) = Body (JObj e) \<and> map_of e ''error'' \<noteq> None))
   \<longrightarrow>
     s_requests (query_layer_run server mx) = Suc k \<and>
     s_all_features (query_layer_run server mx) = concat (map pg [0..<k]) \<and>
     (\<exists>tag. query_layer server mx =
        Inr (JObj [(''features'', JArr (concat (map pg [0..<k]))), (''geometryType'', tag)]))"
proof (intro impI)
  let ?s = "\<lparr>s_all_features = concat (map pg [0..<k]), s_offset = k * page_size,
        s_data = (if k = 0 then None else Some (JObj (kv (k - 1)))), s_requests = k\<rparr>"
  assume a: "(\<forall>i<k. server (i * page_size) = Body (JObj (kv i)) \<and> map_of (kv i) ''error'' = None \<and>
        map_of (kv i) ''features'' = Some (JArr (pg i)) \<and> page_size \<le> length (pg i) \<and>
        int (length (concat (map pg [0..<Suc i]))) < mx) \<and>
   (server (k * page_size) = Failure \<or>
    (\<exists>e. server (k * page_size) = Body (JObj e) \<and> map_of e ''error'' \<noteq> None))"
  then have run: "query_layer_run server mx = query_loop server mx ?s"
    by (intro good_pages_run) blast
  from a have f: "server (s_offset ?s) = Failure \<or>
           (\<exists>e. server (s_offset ?s) = Body (JObj e) \<and> map_of e ''error'' \<noteq> None)"
    by simp
  have all: "s_all_features (query_layer_run server mx) = concat (map pg [0..<k])"
    and req: "s_requests (query_layer_run server mx) = Suc k"
    using failing_page_stops(1,2)[where server = server and s = "?s" and mx = mx, OF f] run
    by simp_all
  have "s_data (query_layer_run server mx) = None \<or>
        (\<exists>e. s_data (query_layer_run server mx) = Some (JObj e))"
    using failing_page_stops(3)[where server = server and s = "?s" and mx = mx, OF f] run
    by (cases "k = 0") auto
  from finish_with_object[OF this] all req
  show "s_requests (query_layer_run server mx) = Suc k \<and>
     s_all_features (query_layer_run server mx) = concat (map pg [0..<k]) \<and>
     (\<exists>tag. query_layer server mx =
        Inr (JObj [(''features'', JArr (concat (map pg [0..<k]))), (''geometryType'', tag)]))"
    by simp
qed

theorem failure_keeps_partial_result_witness:
  "s_requests (query_layer_run
      (\<lambda>off. if off = 0
         then Body (JObj [(''features'', JArr (replicate 1000 JNull)),
                          (''geometryType'', JStr ''esriGeometryPoint'')])
         else Failure) 10000) = 2
   \<and> (\<exists>tag. query_layer
      (\<lambda>off. if off = 0
         then Body (JObj [(''features'', JArr (replicate 1000 JNull)),
                          (''geometryType'', JStr ''esriGeometryPoint'')])
         else Failure) 10000
       = Inr (JObj [(''features'', JArr (replicate 1000 JNull)), (''geometryType'', tag)]))
   \<and> s_requests (query_layer_run
      (\<lambda>off. if off = 0
         then Body (JObj [(''features'', JArr (replicate 1000 JNull)),
                          (''geometryType'', JStr ''esriGeometryPoint'')])
         else Body (JObj [(''error'', JObj [(''message'', JStr ''x'')])])) 10000) = 2
   \<and> (\<exists>tag. query_layer
      (\<lambda>off. if off = 0
         then Body (JObj [(''features'', JArr (replicate 1000 JNull)),
                          (''geometryType'', JStr ''esriGeometryPoint'')])
         else Body (JObj [(''error'', JObj [(''message'', JStr ''x'')])])) 10000
       = Inr (JObj [(''features'', JArr (replicate 1000 JNull)), (''geometryType'', tag)]))
   \<and> (\<exists>tag. query_layer (\<lambda>off. Failure) 10000
       = Inr (JObj [(''features'', JArr []), (''geometryType'', tag)]))"
proof -
  let ?page = "[(''features'', JArr (replicate 1000 JNull)),
                (''geometryType'', JStr ''esriGeometryPoint'')]"
  let ?srv1 = "\<lambda>off::nat. if off = 0 then Body (JObj ?page) else Failure"
  let ?srv2 = "\<lambda>off::nat. if off = 0 then Body (JObj ?page)
                 else Body (JObj [(''error'', JObj [(''message'', JStr ''x'')])])"
  have a: "s_requests (query_layer_run ?srv1 10000) = 2
     \<and> (\<exists>tag. query_layer ?srv1 10000
           = Inr (JObj [(''features'', JArr (replicate 1000 JNull)), (''geometryType'', tag)]))"
    using failure_keeps_partial_result
      [where k = 1 and server = ?srv1 and mx = 10000 and kv = "\<lambda>i. ?page"
         and pg = "\<lambda>i. replicate 1000 JNull"]
    by (simp add: page_size_def)
  have b: "s_requests (query_layer_run ?srv2 10000) = 2
     \<and> (\<exists>tag. query_layer ?srv2 10000
           = Inr (JObj [(''features'', JArr (replicate 1000 JNull)), (''geometryType'', tag)]))"
    using failure_keeps_partial_result
      [where k = 1 and server = ?srv2 and mx = 10000 and kv = "\<lambda>i. ?page"
         and pg = "\<lambda>i. replicate 1000 JNull"]
    by (simp add: page_size_def)
  have c: "\<exists>tag. query_layer (\<lambda>off. Failure) 10000
       = Inr (JObj [(''features'', JArr []), (''geometryType'', tag)])"
    using failure_keeps_partial_result
      [where k = 0 and server = "\<lambda>off. Failure" and mx = 10000 and pg = "\<lambda>i. []"]
    by simp
  from a b c show ?thesis by blast
qed

text \<open>
  Claim C8 fails on the code. The tag of the result is read from \<^verbatim>\<open>data\<close>, the body
  decoded last, whatever it is. When a full page that carries the tag is followed by a
  body with an \<^verbatim>\<open>error\<close> entry, the result keeps the features of the page and has the
  empty string as its tag; the claim, and the comment in the source (``Get geometry type
  from first successful response''), call for the tag of the page.
\<close>

theorem error_page_loses_geometry_type:
  "query_layer
     (\<lambda>off. if off = 0
        then Body (JObj [(''features'', JArr (replicate 1000 (JObj [(''attributes'', JObj [])]))),
                         (''geometryType'', JStr ''esriGeometryPoint'')])
        else Body (JObj [(''error'', JObj [(''message'', JStr ''x'')])])) 10000
   = Inr (JObj [(''features'', JArr (replicate 1000 (JObj [(''attributes'', JObj [])]))),
                (''geometryType'', JStr [])])"
proof -
  let ?f = "JObj [(''attributes'', JObj [])]"
  let ?page = "[(''features'', JArr (replicate 1000 ?f)),
                (''geometryType'', JStr ''esriGeometryPoint'')]"
  let ?err = "[(''error'', JObj [(''message'', JStr ''x'')])]"
  let ?srv = "\<lambda>off::nat. if off = 0 then Body (JObj ?page) else Body (JObj ?err)"
  let ?s0 = "\<lparr>s_all_features = [], s_offset = 0, s_data = None, s_requests = 0\<rparr>"
  let ?s1 = "\<lparr>s_all_features = replicate 1000 ?f, s_offset = 1000,
              s_data = Some (JObj ?page), s_requests = Suc 0\<rparr>"
  have p1: "page_body 10000 [] (JObj ?page) = (replicate 1000 ?f, True)"
    by (simp add: page_body_def page_size_def)
  have step1: "query_loop ?srv 10000 ?s0 = query_loop ?srv 10000 ?s1"
    using p1
    by (simp add: query_loop_body[where server = ?srv and s = ?s0 and d = "JObj ?page"]
          page_size_def)
  have p2: "page_body 10000 (replicate 1000 ?f) (JObj ?err) = (replicate 1000 ?f, False)"
    by (simp add: page_body_def)
  have step2: "query_loop ?srv 10000 ?s1 =
      \<lparr>s_all_features = replicate 1000 ?f, s_offset = 1000,
       s_data = Some (JObj ?err), s_requests = Suc (Suc 0)\<rparr>"
    using p2
    by (simp add: query_loop_body[where server = ?srv and s = ?s1 and d = "JObj ?err"])
  show ?thesis
    by (simp add: query_layer_def query_layer_run_def step1 step2 Let_def)
qed

end
